theory Spec2Isabelle
  imports Complex_Main "HOL-Library.Multiset" "HOL-Library.List_Lexorder" "HOL-Library.Char_ord"
begin

section \<open>Python values as the script receives them\<close>

text \<open>
  The script \<^verbatim>\<open>scripts/test-mexc-balance.py\<close> reads untyped CCXT responses: dictionaries
  whose values may be numbers, strings, \<^verbatim>\<open>None\<close>, booleans or nested containers.
  Numbers are modelled as reals (finite floats without rounding; NaN and infinities are
  not represented). A dictionary is an association list in insertion order, which is the
  order \<^verbatim>\<open>dict.items()\<close> iterates in.
\<close>

datatype pyval =
    PNone
  | PBool bool
  | PNum real
  | PStr string
  | PList "pyval list"
  | PDict "(string \<times> pyval) list"

type_synonym pydict = "(string \<times> pyval) list"

text \<open>The exceptions the script can meet. \<open>ExchangeError\<close> stands for anything a CCXT call raises.\<close>

datatype error = ExchangeError | ValueError | TypeError | AttributeError

text \<open>Python's parser of numeric strings inside \<^verbatim>\<open>float(s)\<close> is a builtin; it is a
  parameter \<open>pf\<close> of the model: \<open>pf s = None\<close> when \<^verbatim>\<open>float(s)\<close> raises ValueError.\<close>

type_synonym str_parser = "string \<Rightarrow> real option"

text \<open>Truth value testing, as used by \<^verbatim>\<open>x or 0\<close> and \<^verbatim>\<open>if x\<close>.\<close>

fun truthy :: "pyval \<Rightarrow> bool" where
  "truthy PNone = False"
| "truthy (PBool b) = b"
| "truthy (PNum r) = (r \<noteq> 0)"
| "truthy (PStr s) = (s \<noteq> [])"
| "truthy (PList xs) = (xs \<noteq> [])"
| "truthy (PDict d) = (d \<noteq> [])"

text \<open>\<^verbatim>\<open>a or b\<close>\<close>

definition py_or :: "pyval \<Rightarrow> pyval \<Rightarrow> pyval" where
  "py_or a b = (if truthy a then a else b)"

text \<open>\<^verbatim>\<open>float(v)\<close>: numbers and booleans convert, strings are parsed (ValueError when they
  do not parse), everything else is a TypeError.\<close>

fun py_float :: "str_parser \<Rightarrow> pyval \<Rightarrow> error + real" where
  "py_float pf (PNum r) = Inr r"
| "py_float pf (PBool b) = Inr (if b then 1 else 0)"
| "py_float pf (PStr s) = (case pf s of None \<Rightarrow> Inl ValueError | Some r \<Rightarrow> Inr r)"
| "py_float pf PNone = Inl TypeError"
| "py_float pf (PList xs) = Inl TypeError"
| "py_float pf (PDict d) = Inl TypeError"

text \<open>\<^verbatim>\<open>d.get(k, default)\<close> on a dictionary.\<close>

definition dict_get :: "pydict \<Rightarrow> string \<Rightarrow> pyval \<Rightarrow> pyval" where
  "dict_get d k dflt = (case map_of d k of None \<Rightarrow> dflt | Some v \<Rightarrow> v)"

text \<open>\<^verbatim>\<open>v.get(k, default)\<close> on an arbitrary value: only dictionaries have \<^verbatim>\<open>get\<close>.\<close>

fun py_get :: "pyval \<Rightarrow> string \<Rightarrow> pyval \<Rightarrow> error + pyval" where
  "py_get (PDict d) k dflt = Inr (dict_get d k dflt)"
| "py_get v k dflt = Inl AttributeError"

text \<open>\<^verbatim>\<open>float(d.get(k, 0) or 0)\<close>, the coercion used on every numeric field.\<close>

definition get_float :: "str_parser \<Rightarrow> pydict \<Rightarrow> string \<Rightarrow> error + real" where
  "get_float pf d k = py_float pf (py_or (dict_get d k (PNum 0)) (PNum 0))"

text \<open>A format specification with a fill/width part such as \<^verbatim>\<open>>20\<close>, and possibly a sign
  (\<^verbatim>\<open>>+15\<close>). Numbers and booleans accept both; a string accepts a width but raises
  ValueError on a sign; \<^verbatim>\<open>None\<close>, lists and dictionaries raise TypeError on any non-empty
  specification.\<close>

fun py_format :: "bool \<Rightarrow> pyval \<Rightarrow> error + unit" where
  "py_format sign (PNum r) = Inr ()"
| "py_format sign (PBool b) = Inr ()"
| "py_format sign (PStr s) = (if sign then Inl ValueError else Inr ())"
| "py_format sign PNone = Inl TypeError"
| "py_format sign (PList xs) = Inl TypeError"
| "py_format sign (PDict d) = Inl TypeError"

text \<open>\<^verbatim>\<open>float(v.get(k, 0) or 0)\<close> on a value that need not be a dictionary.\<close>

definition val_float :: "str_parser \<Rightarrow> pyval \<Rightarrow> string \<Rightarrow> error + real" where
  "val_float pf v k =
     (case py_get v k (PNum 0) of
        Inl e \<Rightarrow> Inl e
      | Inr x \<Rightarrow> py_float pf (py_or x (PNum 0)))"

section \<open>The exchange\<close>

text \<open>What the CCXT client answers to each call of one run. \<open>fetch_balance\<close> is indexed by
  the account type requested (\<^verbatim>\<open>spot\<close>, \<^verbatim>\<open>funding\<close>, \<^verbatim>\<open>earn\<close>, \<^verbatim>\<open>savings\<close>, and \<^verbatim>\<open>swap\<close> for
  the call without argument made under \<^verbatim>\<open>defaultType = 'swap'\<close>), \<open>fetch_my_trades\<close> by
  the symbol; \<open>Inl\<close> is a raised exception. A closed order is represented by its
  \<^verbatim>\<open>symbol\<close> field, a string or \<^verbatim>\<open>None\<close>.\<close>

type_synonym order = "string option"

record exchange =
  fetch_balance :: "string \<Rightarrow> error + pydict"
  fetch_positions :: "error + pydict list"
  fetch_closed_orders :: "error + order list"
  fetch_my_trades :: "string \<Rightarrow> error + pydict list"

section \<open>Spot balance: \<^verbatim>\<open>test_spot_balance\<close>\<close>

record asset =
  currency :: string
  asset_total :: real
  asset_free :: real
  asset_used :: real

record spot_result =
  usdt_equiv :: real
  assets :: "asset list"
  spot_error :: "error option"

definition reserved_keys :: "string list" where
  "reserved_keys =
     [''info'', ''free'', ''used'', ''total'', ''debt'', ''timestamp'', ''datetime'']"

definition settlement_currencies :: "string list" where
  "settlement_currencies = [''USDT'', ''USDC'', ''USD'']"

text \<open>One iteration of the loop of lines 76--95 on the pair
  \<open>(total_usdt_equiv, assets_with_balance)\<close>.\<close>

definition spot_item ::
  "str_parser \<Rightarrow> string \<Rightarrow> pyval \<Rightarrow> real \<times> asset list \<Rightarrow> error + real \<times> asset list" where
  "spot_item pf cur data acc =
     (if cur \<in> set reserved_keys then Inr acc
      else case data of
        PDict d \<Rightarrow>
          (case get_float pf d ''total'' of Inl e \<Rightarrow> Inl e | Inr tot \<Rightarrow>
           case get_float pf d ''free'' of Inl e \<Rightarrow> Inl e | Inr fre \<Rightarrow>
           case get_float pf d ''used'' of Inl e \<Rightarrow> Inl e | Inr usd \<Rightarrow>
             if tot > 0 then
               Inr (if cur \<in> set settlement_currencies then fst acc + tot else fst acc,
                    snd acc @ [\<lparr>currency = cur, asset_total = tot,
                                 asset_free = fre, asset_used = usd\<rparr>])
             else Inr acc)
      | _ \<Rightarrow> Inr acc)"

fun spot_loop ::
  "str_parser \<Rightarrow> pydict \<Rightarrow> real \<times> asset list \<Rightarrow> error + real \<times> asset list" where
  "spot_loop pf [] acc = Inr acc"
| "spot_loop pf ((cur, data) # rest) acc =
     (case spot_item pf cur data acc of
        Inl e \<Rightarrow> Inl e
      | Inr acc' \<Rightarrow> spot_loop pf rest acc')"

text \<open>Line 100: \<^verbatim>\<open>sorted(assets_with_balance, key=lambda x: x['total'], reverse=True)\<close>.
  Python's sort is stable and \<^verbatim>\<open>reverse=True\<close> keeps equal keys in their original
  order: the list is reversed, sorted ascending, and reversed again. These are the rows
  the function prints; the list it returns is \<^verbatim>\<open>assets_with_balance\<close> itself.\<close>

definition sorted_assets :: "asset list \<Rightarrow> asset list" where
  "sorted_assets xs = rev (sort_key asset_total (rev xs))"

text \<open>The body of the \<^verbatim>\<open>try\<close> block, and the function with its handler (lines 112--114).\<close>

definition spot_body :: "str_parser \<Rightarrow> exchange \<Rightarrow> error + spot_result" where
  "spot_body pf ex =
     (case fetch_balance ex ''spot'' of
        Inl e \<Rightarrow> Inl e
      | Inr balance \<Rightarrow>
          (case spot_loop pf balance (0, []) of
             Inl e \<Rightarrow> Inl e
           | Inr (eqv, found) \<Rightarrow>
               Inr \<lparr>usdt_equiv = eqv, assets = found, spot_error = None\<rparr>))"

definition test_spot_balance :: "str_parser \<Rightarrow> exchange \<Rightarrow> spot_result" where
  "test_spot_balance pf ex =
     (case spot_body pf ex of
        Inl e \<Rightarrow> \<lparr>usdt_equiv = 0, assets = [], spot_error = Some e\<rparr>
      | Inr r \<Rightarrow> r)"

text \<open>The rows printed by lines 100--102, in order (none when the body raised earlier).\<close>

definition spot_printed :: "str_parser \<Rightarrow> exchange \<Rightarrow> asset list" where
  "spot_printed pf ex = sorted_assets (assets (test_spot_balance pf ex))"

section \<open>Swap balance: \<^verbatim>\<open>test_swap_balance\<close>\<close>

text \<open>The error result of line 160 has the key \<^verbatim>\<open>total\<close> only, so the other fields are
  optional.\<close>

record swap_result =
  usdt_total :: "real option"
  usdt_free :: "real option"
  usdc_total :: "real option"
  swap_total :: real
  swap_error :: "error option"

definition swap_body :: "str_parser \<Rightarrow> exchange \<Rightarrow> error + swap_result" where
  "swap_body pf ex =
     (case fetch_balance ex ''swap'' of
        Inl e \<Rightarrow> Inl e
      | Inr balance \<Rightarrow>
          (let usdt = dict_get balance ''USDT'' (PDict []);
               usdc = dict_get balance ''USDC'' (PDict []);
               usd = dict_get balance ''USD'' (PDict [])
           in case val_float pf usdt ''total'' of Inl e \<Rightarrow> Inl e | Inr ut \<Rightarrow>
              case val_float pf usdt ''free'' of Inl e \<Rightarrow> Inl e | Inr uf \<Rightarrow>
              case val_float pf usdt ''used'' of Inl e \<Rightarrow> Inl e | Inr uu \<Rightarrow>
              case val_float pf usdc ''total'' of Inl e \<Rightarrow> Inl e | Inr ct \<Rightarrow>
              case val_float pf usd ''total'' of Inl e \<Rightarrow> Inl e | Inr dt \<Rightarrow>
                Inr \<lparr>usdt_total = Some ut, usdt_free = Some uf, usdc_total = Some ct,
                     swap_total = ut + ct + dt, swap_error = None\<rparr>))"

definition test_swap_balance :: "str_parser \<Rightarrow> exchange \<Rightarrow> swap_result" where
  "test_swap_balance pf ex =
     (case swap_body pf ex of
        Inl e \<Rightarrow> \<lparr>usdt_total = None, usdt_free = None, usdc_total = None,
                   swap_total = 0, swap_error = Some e\<rparr>
      | Inr r \<Rightarrow> r)"

section \<open>Open positions: \<^verbatim>\<open>test_positions\<close>\<close>

text \<open>The error result of line 209 has no \<^verbatim>\<open>notional\<close> key.\<close>

record positions_result =
  positions :: "pydict list"
  unrealized_pnl :: real
  notional :: "real option"
  positions_error :: "error option"

text \<open>Line 171, the comprehension
  \<^verbatim>\<open>[p for p in positions if p.get('contracts', 0) and float(p['contracts']) > 0]\<close>;
  \<^verbatim>\<open>float\<close> is reached only for a truthy value and may raise.\<close>

fun open_filter :: "str_parser \<Rightarrow> pydict list \<Rightarrow> error + pydict list" where
  "open_filter pf [] = Inr []"
| "open_filter pf (p # ps) =
     (if truthy (dict_get p ''contracts'' (PNum 0)) then
        (case py_float pf (dict_get p ''contracts'' (PNum 0)) of
           Inl e \<Rightarrow> Inl e
         | Inr c \<Rightarrow>
             (case open_filter pf ps of
                Inl e \<Rightarrow> Inl e
              | Inr kept \<Rightarrow> Inr (if c > 0 then p # kept else kept)))
      else open_filter pf ps)"

text \<open>One iteration of the loop of lines 182--196 on the pair
  \<open>(total_unrealized_pnl, total_notional)\<close>. The row printed at line 195 formats
  \<^verbatim>\<open>symbol\<close> with \<^verbatim>\<open>>20\<close> and \<^verbatim>\<open>side\<close> with \<^verbatim>\<open>>5\<close>, which raises on \<^verbatim>\<open>None\<close>.\<close>

definition position_row ::
  "str_parser \<Rightarrow> pydict \<Rightarrow> real \<times> real \<Rightarrow> error + real \<times> real" where
  "position_row pf pos acc =
     (let symbol = dict_get pos ''symbol'' (PStr ''Unknown'');
          side = dict_get pos ''side'' (PStr ''Unknown'')
      in case get_float pf pos ''contracts'' of Inl e \<Rightarrow> Inl e | Inr contracts \<Rightarrow>
         case get_float pf pos ''entryPrice'' of Inl e \<Rightarrow> Inl e | Inr entry \<Rightarrow>
         case get_float pf pos ''markPrice'' of Inl e \<Rightarrow> Inl e | Inr mark \<Rightarrow>
         case get_float pf pos ''unrealizedPnl'' of Inl e \<Rightarrow> Inl e | Inr pnl \<Rightarrow>
         case get_float pf pos ''notional'' of Inl e \<Rightarrow> Inl e | Inr ntl \<Rightarrow>
         case py_format False symbol of Inl e \<Rightarrow> Inl e | Inr _ \<Rightarrow>
         case py_format False side of Inl e \<Rightarrow> Inl e | Inr _ \<Rightarrow>
           Inr (fst acc + pnl, snd acc + \<bar>ntl\<bar>))"

fun positions_loop ::
  "str_parser \<Rightarrow> pydict list \<Rightarrow> real \<times> real \<Rightarrow> error + real \<times> real" where
  "positions_loop pf [] acc = Inr acc"
| "positions_loop pf (pos # rest) acc =
     (case position_row pf pos acc of
        Inl e \<Rightarrow> Inl e
      | Inr acc' \<Rightarrow> positions_loop pf rest acc')"

definition positions_body :: "str_parser \<Rightarrow> exchange \<Rightarrow> error + positions_result" where
  "positions_body pf ex =
     (case fetch_positions ex of
        Inl e \<Rightarrow> Inl e
      | Inr ps \<Rightarrow>
          (case open_filter pf ps of
             Inl e \<Rightarrow> Inl e
           | Inr open_positions \<Rightarrow>
               (case positions_loop pf open_positions (0, 0) of
                  Inl e \<Rightarrow> Inl e
                | Inr (pnl, ntl) \<Rightarrow>
                    Inr \<lparr>positions = open_positions, unrealized_pnl = pnl,
                         notional = Some ntl, positions_error = None\<rparr>)))"

definition test_positions :: "str_parser \<Rightarrow> exchange \<Rightarrow> positions_result" where
  "test_positions pf ex =
     (case positions_body pf ex of
        Inl e \<Rightarrow> \<lparr>positions = [], unrealized_pnl = 0, notional = None,
                   positions_error = Some e\<rparr>
      | Inr r \<Rightarrow> r)"

section \<open>Recent trades: \<^verbatim>\<open>test_recent_trades\<close>\<close>

text \<open>Lines 254--256: the symbols of the closed orders go into a set; an order whose
  symbol is \<^verbatim>\<open>None\<close> or empty is skipped. The set is kept as a duplicate-free list in
  order of first insertion (Python leaves the iteration order of a set open; the count
  and the sums below do not depend on it).\<close>

fun add_symbols :: "order list \<Rightarrow> string list \<Rightarrow> string list" where
  "add_symbols [] symbols = symbols"
| "add_symbols (None # orders) symbols = add_symbols orders symbols"
| "add_symbols (Some s # orders) symbols =
     add_symbols orders (if s \<noteq> [] \<and> s \<notin> set symbols then symbols @ [s] else symbols)"

text \<open>Lines 251--259: a failing \<^verbatim>\<open>fetch_closed_orders\<close> leaves the set empty.\<close>

definition symbols_to_check :: "exchange \<Rightarrow> string list" where
  "symbols_to_check ex =
     (case fetch_closed_orders ex of
        Inl e \<Rightarrow> []
      | Inr closed_orders \<Rightarrow> add_symbols closed_orders [])"

text \<open>Lines 265--272: \<^verbatim>\<open>all_trades.extend(trades)\<close> for each symbol, with
  \<^verbatim>\<open>except Exception: pass\<close> around each fetch.\<close>

fun trades_loop :: "exchange \<Rightarrow> string list \<Rightarrow> pydict list \<Rightarrow> pydict list" where
  "trades_loop ex [] all_trades = all_trades"
| "trades_loop ex (symbol # rest) all_trades =
     (case fetch_my_trades ex symbol of
        Inl e \<Rightarrow> trades_loop ex rest all_trades
      | Inr trades \<Rightarrow> trades_loop ex rest (all_trades @ trades))"

text \<open>\<^verbatim>\<open>sum(g(t) for t in all_trades)\<close>, where \<^verbatim>\<open>g\<close> may raise. Lines 274--275 are outside
  every \<^verbatim>\<open>try\<close>, so such an exception leaves the function.\<close>

fun sum_gen :: "(pydict \<Rightarrow> error + real) \<Rightarrow> pydict list \<Rightarrow> real \<Rightarrow> error + real" where
  "sum_gen g [] acc = Inr acc"
| "sum_gen g (t # ts) acc =
     (case g t of Inl e \<Rightarrow> Inl e | Inr x \<Rightarrow> sum_gen g ts (acc + x))"

text \<open>\<^verbatim>\<open>float(t.get('cost', 0) or 0)\<close> and \<^verbatim>\<open>float(t.get('fee', {}).get('cost', 0) or 0)\<close>.\<close>

definition trade_cost :: "str_parser \<Rightarrow> pydict \<Rightarrow> error + real" where
  "trade_cost pf t = get_float pf t ''cost''"

definition trade_fee :: "str_parser \<Rightarrow> pydict \<Rightarrow> error + real" where
  "trade_fee pf t = val_float pf (dict_get t ''fee'' (PDict [])) ''cost''"

record trades_result =
  trades :: nat
  volume :: real
  fees :: real

definition summarize_trades :: "str_parser \<Rightarrow> pydict list \<Rightarrow> error + trades_result" where
  "summarize_trades pf all_trades =
     (case sum_gen (trade_cost pf) all_trades 0 of
        Inl e \<Rightarrow> Inl e
      | Inr total_volume \<Rightarrow>
          (case sum_gen (trade_fee pf) all_trades 0 of
             Inl e \<Rightarrow> Inl e
           | Inr total_fees \<Rightarrow>
               Inr \<lparr>trades = length all_trades, volume = total_volume,
                    fees = total_fees\<rparr>))"

definition test_recent_trades :: "str_parser \<Rightarrow> exchange \<Rightarrow> error + trades_result" where
  "test_recent_trades pf ex =
     summarize_trades pf (trades_loop ex (symbols_to_check ex) [])"

section \<open>Funding balance: \<^verbatim>\<open>test_funding_balance\<close>\<close>

record funding_result =
  funding_type :: "string option"
  funding_total :: real

text \<open>The body of the \<^verbatim>\<open>try\<close> of lines 294--296 for one account type: the USDT entry of
  the balance, its \<^verbatim>\<open>total\<close> coerced to a float.\<close>

definition funding_probe :: "str_parser \<Rightarrow> exchange \<Rightarrow> string \<Rightarrow> error + real" where
  "funding_probe pf ex balance_type =
     (case fetch_balance ex balance_type of
        Inl e \<Rightarrow> Inl e
      | Inr balance \<Rightarrow> val_float pf (dict_get balance ''USDT'' (PDict [])) ''total'')"

fun funding_loop :: "str_parser \<Rightarrow> exchange \<Rightarrow> string list \<Rightarrow> funding_result" where
  "funding_loop pf ex [] = \<lparr>funding_type = None, funding_total = 0\<rparr>"
| "funding_loop pf ex (balance_type # rest) =
     (case funding_probe pf ex balance_type of
        Inl e \<Rightarrow> funding_loop pf ex rest
      | Inr tot \<Rightarrow>
          if tot > 0 then \<lparr>funding_type = Some balance_type, funding_total = tot\<rparr>
          else funding_loop pf ex rest)"

definition test_funding_balance :: "str_parser \<Rightarrow> exchange \<Rightarrow> funding_result" where
  "test_funding_balance pf ex = funding_loop pf ex [''funding'', ''earn'', ''savings'']"

section \<open>Summary arithmetic of \<^verbatim>\<open>main\<close> (lines 342--350)\<close>

text \<open>The test of line 342:
  \<^verbatim>\<open>abs(spot_value - swap_value) < 1.0 and spot_value > 0\<close>.\<close>

definition pools_are_shared :: "real \<Rightarrow> real \<Rightarrow> bool" where
  "pools_are_shared spot_value swap_value =
     (\<bar>spot_value - swap_value\<bar> < 1.0 \<and> spot_value > 0)"

text \<open>The figure printed on the total line: \<^verbatim>\<open>ESTIMATED TOTAL\<close> is \<^verbatim>\<open>swap_value\<close> in the
  first branch, \<^verbatim>\<open>TOTAL EQUITY\<close> is the sum of the three subtotals in the other. The
  unrealized PnL is not an input of either branch.\<close>

definition reported_total :: "real \<Rightarrow> real \<Rightarrow> real \<Rightarrow> real" where
  "reported_total spot_value swap_value funding_value =
     (if pools_are_shared spot_value swap_value then swap_value
      else spot_value + swap_value + funding_value)"

section \<open>The run: \<^verbatim>\<open>main\<close>\<close>

text \<open>What the summary prints when it is reached.\<close>

record summary =
  shown_spot :: real
  shown_swap :: real
  shown_funding :: real
  shown_pnl :: real
  shown_shared :: bool
  shown_total :: real

text \<open>\<^verbatim>\<open>main\<close> after the client has been created. \<^verbatim>\<open>test_market_types\<close> catches every
  exception and feeds the diagnosis text only, so it is left out. \<^verbatim>\<open>test_recent_trades\<close>
  is called outside any \<^verbatim>\<open>try\<close>. \<open>fc\<close> is the string \<^verbatim>\<open>format_currency\<close> returns for a
  value; lines 335--337 format that string with \<^verbatim>\<open>>15\<close> and line 338 with
  \<^verbatim>\<open>>+15\<close>, before the total of lines 342--350 is printed.\<close>

definition main :: "str_parser \<Rightarrow> (real \<Rightarrow> string) \<Rightarrow> exchange \<Rightarrow> error + summary" where
  "main pf fc ex =
     (let spot_res = test_spot_balance pf ex;
          swap_res = test_swap_balance pf ex;
          positions_res = test_positions pf ex;
          funding_res = test_funding_balance pf ex
      in case test_recent_trades pf ex of
           Inl e \<Rightarrow> Inl e
         | Inr trades_res \<Rightarrow>
             (let sv = usdt_equiv spot_res;
                  wv = swap_total swap_res;
                  fv = funding_total funding_res;
                  pv = unrealized_pnl positions_res
              in case py_format False (PStr (fc sv)) of Inl e \<Rightarrow> Inl e | Inr _ \<Rightarrow>
                 case py_format False (PStr (fc wv)) of Inl e \<Rightarrow> Inl e | Inr _ \<Rightarrow>
                 case py_format False (PStr (fc fv)) of Inl e \<Rightarrow> Inl e | Inr _ \<Rightarrow>
                 case py_format True (PStr (fc pv)) of Inl e \<Rightarrow> Inl e | Inr _ \<Rightarrow>
                   Inr \<lparr>shown_spot = sv, shown_swap = wv, shown_funding = fv,
                        shown_pnl = pv, shown_shared = pools_are_shared sv wv,
                        shown_total = reported_total sv wv fv\<rparr>))"

section \<open>Vocabulary of the statements\<close>

text \<open>The value a numeric field has after coercion (0 where the coercion raises; the
  statements below use it only on runs without an exception).\<close>

definition coerced :: "str_parser \<Rightarrow> pydict \<Rightarrow> string \<Rightarrow> real" where
  "coerced pf d k = (case get_float pf d k of Inl e \<Rightarrow> 0 | Inr x \<Rightarrow> x)"

text \<open>The coerced \<^verbatim>\<open>total\<close> of a raw entry; an entry that is not a dictionary has none.\<close>

definition entry_total :: "str_parser \<Rightarrow> pyval \<Rightarrow> real" where
  "entry_total pf v = (case v of PDict d \<Rightarrow> coerced pf d ''total'' | _ \<Rightarrow> 0)"

definition included :: "str_parser \<Rightarrow> string \<times> pyval \<Rightarrow> bool" where
  "included pf kv = (fst kv \<notin> set reserved_keys \<and> 0 < entry_total pf (snd kv))"

definition to_asset :: "str_parser \<Rightarrow> string \<times> pyval \<Rightarrow> asset" where
  "to_asset pf kv =
     (case snd kv of
        PDict d \<Rightarrow> \<lparr>currency = fst kv, asset_total = coerced pf d ''total'',
                     asset_free = coerced pf d ''free'', asset_used = coerced pf d ''used''\<rparr>
      | _ \<Rightarrow> \<lparr>currency = fst kv, asset_total = 0, asset_free = 0, asset_used = 0\<rparr>)"

definition is_settlement :: "asset \<Rightarrow> bool" where
  "is_settlement a = (currency a \<in> set settlement_currencies)"









text \<open>Whether the loop of \<^verbatim>\<open>test_spot_balance\<close> raises on a raw entry: its key is not
  reserved, its value is a dictionary, and the coercion of \<^verbatim>\<open>total\<close>, \<^verbatim>\<open>free\<close> or
  \<^verbatim>\<open>used\<close> raises.\<close>

definition entry_raises :: "str_parser \<Rightarrow> string \<times> pyval \<Rightarrow> bool" where
  "entry_raises pf kv =
     (fst kv \<notin> set reserved_keys \<and>
      (case snd kv of
         PDict d \<Rightarrow> isl (get_float pf d ''total'') \<or> isl (get_float pf d ''free'')
                      \<or> isl (get_float pf d ''used'')
       | _ \<Rightarrow> False))"

text \<open>Whether the comprehension of line 171 raises on a position (a truthy size that
  \<^verbatim>\<open>float\<close> rejects), and whether the loop of lines 182--196 raises on it (a field that
  does not coerce, or a symbol or side that the row cannot format).\<close>

definition size_raises :: "str_parser \<Rightarrow> pydict \<Rightarrow> bool" where
  "size_raises pf p =
     (truthy (dict_get p ''contracts'' (PNum 0))
      \<and> isl (py_float pf (dict_get p ''contracts'' (PNum 0))))"

definition row_raises :: "str_parser \<Rightarrow> pydict \<Rightarrow> bool" where
  "row_raises pf p = isl (position_row pf p (0, 0))"


text \<open>The order on rows the specification words: descending by total, ties by currency
  identifier ascending; and the order by total alone.\<close>

definition spec_order :: "asset \<Rightarrow> asset \<Rightarrow> bool" where
  "spec_order a b =
     (asset_total b < asset_total a
      \<or> (asset_total a = asset_total b \<and> currency a \<le> currency b))"

definition by_total_desc :: "asset \<Rightarrow> asset \<Rightarrow> bool" where
  "by_total_desc a b = (asset_total b \<le> asset_total a)"

section \<open>Example runs\<close>

text \<open>A string parser that accepts nothing, and exchanges that answer one call with a fixed
  response: enough to evaluate the functions on concrete inputs.\<close>

definition no_strings :: str_parser where
  "no_strings s = None"

definition only_spot :: "pydict \<Rightarrow> string \<Rightarrow> error + pydict" where
  "only_spot balance t = (if t = ''spot'' then Inr balance else Inl ExchangeError)"

definition no_trades :: "string \<Rightarrow> error + pydict list" where
  "no_trades symbol = Inr []"

definition spot_exchange :: "pydict \<Rightarrow> exchange" where
  "spot_exchange balance =
     \<lparr>fetch_balance = only_spot balance, fetch_positions = Inr [],
      fetch_closed_orders = Inr [], fetch_my_trades = no_trades\<rparr>"

definition balance_mixed :: pydict where
  "balance_mixed =
     [(''info'', PStr ''raw''),
      (''ETH'', PDict [(''total'', PNum 1), (''used'', PNum 0)]),
      (''USDT'', PDict [(''total'', PNum 2), (''free'', PNone), (''used'', PNum 2)]),
      (''BTC'', PDict [(''total'', PNum 1), (''free'', PNum 1)]),
      (''DOGE'', PDict [(''total'', PNum 0), (''free'', PNum 0)]),
      (''USDC'', PDict [(''free'', PNum 3)])]"

text \<open>A \<^verbatim>\<open>total\<close> that is the empty string, and one that is a list.\<close>

definition balance_empty_string :: pydict where
  "balance_empty_string = [(''USDT'', PDict [(''total'', PStr []), (''free'', PNum 5)])]"

definition balance_bad_list :: pydict where
  "balance_bad_list =
     [(''USDT'', PDict [(''total'', PNum 5)]),
      (''BTC'', PDict [(''total'', PList [PNone])])]"

definition no_balance :: "string \<Rightarrow> error + pydict" where
  "no_balance t = Inl ExchangeError"

definition balance_exchange :: "(string \<Rightarrow> error + pydict) \<Rightarrow> exchange" where
  "balance_exchange f =
     \<lparr>fetch_balance = f, fetch_positions = Inr [],
      fetch_closed_orders = Inr [], fetch_my_trades = no_trades\<rparr>"

text \<open>Four positions: a short with a loss, one of size 0, one without size, and one
  without PnL.\<close>

definition positions_mixed :: "pydict list" where
  "positions_mixed =
     [[(''symbol'', PStr ''BTC/USDT:USDT''), (''side'', PStr ''short''),
       (''contracts'', PNum 2), (''unrealizedPnl'', PNum (- 30)), (''notional'', PNum (- 500))],
      [(''symbol'', PStr ''ETH/USDT:USDT''), (''side'', PStr ''long''),
       (''contracts'', PNum 0), (''unrealizedPnl'', PNum 99), (''notional'', PNum 80)],
      [(''symbol'', PStr ''XRP/USDT:USDT''), (''side'', PStr ''long''),
       (''unrealizedPnl'', PNum 7)],
      [(''symbol'', PStr ''SOL/USDT:USDT''), (''side'', PStr ''long''),
       (''contracts'', PNum 1), (''notional'', PNum 120)]]"

definition positions_exchange :: "pydict list \<Rightarrow> exchange" where
  "positions_exchange ps =
     \<lparr>fetch_balance = no_balance, fetch_positions = Inr ps,
      fetch_closed_orders = Inr [], fetch_my_trades = no_trades\<rparr>"



text \<open>Funding, earn and savings accounts holding the given USDT totals; and the same
  with USDC beside the USDT of the funding account.\<close>

definition usdt_only :: "real \<Rightarrow> error + pydict" where
  "usdt_only a = Inr [(''USDT'', PDict [(''total'', PNum a)])]"



text \<open>A healthy account: 1000 USDT on spot, 1000.5 USDT on swap, 50 USDT on funding, no
  position and no closed order. \<open>some_text\<close> stands for the text \<^verbatim>\<open>format_currency\<close>
  renders.\<close>

definition healthy_balances :: "string \<Rightarrow> error + pydict" where
  "healthy_balances t =
     (if t = ''spot'' then
        Inr [(''info'', PDict []),
             (''USDT'', PDict [(''total'', PNum 1000), (''free'', PNum 1000), (''used'', PNum 0)])]
      else if t = ''swap'' then
        Inr [(''info'', PDict []),
             (''USDT'', PDict [(''total'', PNum 1000.5), (''free'', PNum 1000.5), (''used'', PNum 0)])]
      else if t = ''funding'' then usdt_only 50
      else Inl ExchangeError)"

definition some_text :: "real \<Rightarrow> string" where
  "some_text v = ''1,000.0000''"

text \<open>A spot balance with the three settlement currencies, another asset, and dictionaries
  under the reserved keys \<^verbatim>\<open>info\<close> and \<^verbatim>\<open>total\<close>; and one whose BTC entry has a
  \<^verbatim>\<open>free\<close> that is not a number.\<close>

definition balance_settlement :: pydict where
  "balance_settlement =
     [(''info'', PDict [(''total'', PNum 8)]),
      (''total'', PDict [(''total'', PNum 9), (''USDT'', PNum 2)]),
      (''USDT'', PDict [(''total'', PNum 2), (''free'', PNum 2)]),
      (''BTC'', PDict [(''total'', PNum 1)]),
      (''USDC'', PDict [(''total'', PNum 3), (''free'', PNone)]),
      (''DOGE'', PDict [(''total'', PNum 0)]),
      (''USD'', PDict [(''total'', PNum 4), (''used'', PNum 4)])]"

definition balance_bad_free :: pydict where
  "balance_bad_free =
     [(''USDT'', PDict [(''total'', PNum 5), (''free'', PNum 5)]),
      (''BTC'', PDict [(''total'', PNum 1), (''free'', PStr ''n/a'')])]"

text \<open>An open position whose \<^verbatim>\<open>symbol\<close> is \<^verbatim>\<open>None\<close>.\<close>

definition positions_no_symbol :: "pydict list" where
  "positions_no_symbol =
     [[(''symbol'', PNone), (''side'', PStr ''long''), (''contracts'', PNum 1),
       (''unrealizedPnl'', PNum 5)]]"



section \<open>Properties\<close>

subsection \<open>The spot normalizer\<close>

lemma spot_item_shape:
  "spot_item pf cur data acc = Inr acc' \<Longrightarrow>
     snd acc' = snd acc @ map (to_asset pf) (filter (included pf) [(cur, data)]) \<and>
     fst acc' = fst acc + sum_list (map asset_total
        (filter is_settlement (map (to_asset pf) (filter (included pf) [(cur, data)]))))"
  by (cases data)
     (auto simp: spot_item_def included_def entry_total_def coerced_def to_asset_def
        is_settlement_def split: if_splits sum.splits)

lemma spot_loop_shape:
  "spot_loop pf balance acc = Inr acc' \<Longrightarrow>
     snd acc' = snd acc @ map (to_asset pf) (filter (included pf) balance) \<and>
     fst acc' = fst acc + sum_list (map asset_total
        (filter is_settlement (map (to_asset pf) (filter (included pf) balance))))"
proof (induction balance arbitrary: acc)
  case Nil
  then show ?case by simp
next
  case (Cons kv rest)
  obtain cur data where kv: "kv = (cur, data)" by (cases kv)
  from Cons.prems kv obtain mid where
    item: "spot_item pf cur data acc = Inr mid" and loop: "spot_loop pf rest mid = Inr acc'"
    by (auto split: sum.splits)
  from spot_item_shape [OF item] Cons.IH [OF loop] kv show ?case
    by (auto simp: add.assoc)
qed

lemma spot_item_raises:
  "cur \<notin> set reserved_keys \<Longrightarrow> k \<in> {''total'', ''free'', ''used''} \<Longrightarrow>
     isl (get_float pf d k) \<Longrightarrow> isl (spot_item pf cur (PDict d) acc)"
  by (auto simp: spot_item_def split: sum.splits)

lemma spot_loop_raises:
  "(cur, PDict d) \<in> set balance \<Longrightarrow> cur \<notin> set reserved_keys \<Longrightarrow>
     k \<in> {''total'', ''free'', ''used''} \<Longrightarrow> isl (get_float pf d k) \<Longrightarrow>
     isl (spot_loop pf balance acc)"
proof (induction balance arbitrary: acc)
  case Nil
  then show ?case by simp
next
  case (Cons kv rest)
  obtain c v where kv: "kv = (c, v)" by (cases kv)
  show ?case
  proof (cases "spot_item pf c v acc")
    case (Inl e)
    with kv show ?thesis by simp
  next
    case (Inr mid)
    have "kv \<noteq> (cur, PDict d)"
    proof
      assume "kv = (cur, PDict d)"
      with kv Inr spot_item_raises [OF Cons.prems(2,3,4), of acc] show False by auto
    qed
    with Cons.prems(1) have "(cur, PDict d) \<in> set rest" by auto
    from Cons.IH [OF this Cons.prems(2,3,4)] kv Inr show ?thesis by simp
  qed
qed

lemma get_float_error: "get_float pf d k = Inl e \<Longrightarrow> e = ValueError \<or> e = TypeError"
  by (cases "py_or (dict_get d k (PNum 0)) (PNum 0)")
     (auto simp: get_float_def split: option.splits)

lemma get_float_falsy:
  "\<not> truthy (dict_get d k (PNum 0)) \<Longrightarrow> get_float pf d k = Inr 0"
  by (simp add: get_float_def py_or_def)

lemma get_float_missing: "map_of d k = None \<Longrightarrow> get_float pf d k = Inr 0"
  by (simp add: get_float_def py_or_def dict_get_def)

lemma get_float_null: "map_of d k = Some PNone \<Longrightarrow> get_float pf d k = Inr 0"
  by (simp add: get_float_def py_or_def dict_get_def)

lemma sorted_assets_desc:
  "sorted_wrt (\<lambda>a b. asset_total b \<le> asset_total a) (sorted_assets xs)"
proof -
  have "sorted (map asset_total (sort_key asset_total (rev xs)))" by simp
  then have "sorted_wrt (\<lambda>a b. asset_total a \<le> asset_total b) (sort_key asset_total (rev xs))"
    by (simp add: sorted_map)
  then show ?thesis
    by (simp add: sorted_assets_def sorted_wrt_rev)
qed

lemma sorted_assets_mset: "mset (sorted_assets xs) = mset xs"
  by (simp add: sorted_assets_def)

lemma sorted_assets_stable:
  "filter (\<lambda>a. asset_total a = t) (sorted_assets xs) = filter (\<lambda>a. asset_total a = t) xs"
proof -
  have "filter (\<lambda>a. asset_total a = t) (sorted_assets xs)
      = rev (filter (\<lambda>a. asset_total a = t) (sort_key asset_total (rev xs)))"
    by (simp add: sorted_assets_def rev_filter)
  also have "\<dots> = rev (filter (\<lambda>a. asset_total a = t) (rev xs))"
    by (simp only: sort_key_stable)
  also have "\<dots> = filter (\<lambda>a. asset_total a = t) xs"
    by (simp add: rev_filter)
  finally show ?thesis .
qed

lemma spot_loop_error:
  "spot_loop pf balance acc = Inl e \<Longrightarrow> e = ValueError \<or> e = TypeError"
proof (induction balance arbitrary: acc)
  case Nil
  then show ?case by simp
next
  case (Cons kv rest)
  obtain c v where kv: "kv = (c, v)" by (cases kv)
  show ?case
  proof (cases "spot_item pf c v acc")
    case (Inl e')
    with Cons.prems kv have "spot_item pf c v acc = Inl e" by simp
    then show ?thesis
      by (cases v) (auto simp: spot_item_def split: if_splits sum.splits dest: get_float_error)
  next
    case (Inr mid)
    with Cons.prems kv have "spot_loop pf rest mid = Inl e" by simp
    then show ?thesis by (rule Cons.IH)
  qed
qed

lemma get_float_raises_iff:
  "isl (get_float pf d k) =
     (case map_of d k of
        Some (PStr s) \<Rightarrow> s \<noteq> [] \<and> pf s = None
      | Some (PList xs) \<Rightarrow> xs \<noteq> []
      | Some (PDict m) \<Rightarrow> m \<noteq> []
      | _ \<Rightarrow> False)"
  by (auto simp: get_float_def py_or_def dict_get_def split: option.splits pyval.splits)

lemma spot_item_isl: "isl (spot_item pf cur data acc) = entry_raises pf (cur, data)"
  by (cases data) (auto simp: spot_item_def entry_raises_def split: sum.splits)

lemma spot_loop_isl:
  "isl (spot_loop pf balance acc) = (\<exists>kv \<in> set balance. entry_raises pf kv)"
proof (induction balance arbitrary: acc)
  case Nil
  then show ?case by simp
next
  case (Cons kv rest)
  obtain c v where kv: "kv = (c, v)" by (cases kv)
  show ?case
  proof (cases "spot_item pf c v acc")
    case (Inl e)
    with spot_item_isl [of pf c v acc] kv show ?thesis by simp
  next
    case (Inr mid)
    with spot_item_isl [of pf c v acc] kv Cons.IH [of mid] show ?thesis by simp
  qed
qed

text \<open>C5, as amended: when no raw entry makes the loop raise, the returned \<^verbatim>\<open>assets\<close> are
  exactly the raw entries, in raw order, whose key is not a reserved metadata key and whose
  coerced \<^verbatim>\<open>total\<close> is strictly positive (missing and null fields coerced to 0), and
  \<^verbatim>\<open>usdt_equiv\<close> is the sum of \<^verbatim>\<open>total\<close> over the returned assets whose currency is USDT,
  USDC or USD, the other assets being kept in the list without adding to the sum; when some
  entry makes the loop raise, the exception is caught and the result has no asset at all
  and \<^verbatim>\<open>usdt_equiv\<close> 0, whatever the totals of the other entries.\<close>

theorem spot_included_unless_raised:
  assumes "fetch_balance ex ''spot'' = Inr balance"
  shows "((\<forall>kv \<in> set balance. \<not> entry_raises pf kv) \<longrightarrow>
            spot_error (test_spot_balance pf ex) = None
          \<and> assets (test_spot_balance pf ex)
              = map (to_asset pf)
                  (filter (\<lambda>kv. fst kv \<notin> {''info'', ''free'', ''used'', ''total'', ''debt'',
                                             ''timestamp'', ''datetime''}
                                \<and> 0 < entry_total pf (snd kv)) balance)
          \<and> usdt_equiv (test_spot_balance pf ex)
              = sum_list (map asset_total
                  (filter (\<lambda>a. currency a \<in> {''USDT'', ''USDC'', ''USD''})
                     (assets (test_spot_balance pf ex)))))
     \<and> ((\<exists>kv \<in> set balance. entry_raises pf kv) \<longrightarrow>
            spot_error (test_spot_balance pf ex) \<noteq> None
          \<and> assets (test_spot_balance pf ex) = []
          \<and> usdt_equiv (test_spot_balance pf ex) = 0)"
proof (cases "spot_loop pf balance (0, [])")
  case (Inl e)
  with spot_loop_isl [of pf balance "(0, [])"] assms show ?thesis
    by (simp add: test_spot_balance_def spot_body_def)
next
  case (Inr acc)
  have inc: "included pf = (\<lambda>kv. fst kv \<notin> {''info'', ''free'', ''used'', ''total'', ''debt'',
      ''timestamp'', ''datetime''} \<and> 0 < entry_total pf (snd kv))"
    by (simp add: fun_eq_iff included_def reserved_keys_def)
  have stl: "is_settlement = (\<lambda>a. currency a \<in> {''USDT'', ''USDC'', ''USD''})"
    by (simp add: fun_eq_iff is_settlement_def settlement_currencies_def)
  from Inr spot_loop_isl [of pf balance "(0, [])"]
  have ok: "\<not> (\<exists>kv \<in> set balance. entry_raises pf kv)" by simp
  from spot_loop_shape [OF Inr] have
    "snd acc = map (to_asset pf) (filter (included pf) balance)"
    "fst acc = sum_list (map asset_total (filter is_settlement (snd acc)))"
    by simp_all
  with ok assms Inr show ?thesis
    unfolding inc stl
    by (cases acc) (simp add: test_spot_balance_def spot_body_def)
qed

theorem spot_included_unless_raised_witness:
  "fetch_balance (spot_exchange balance_settlement) ''spot'' = Inr balance_settlement
   \<and> spot_error (test_spot_balance no_strings (spot_exchange balance_settlement)) = None
   \<and> map currency (assets (test_spot_balance no_strings (spot_exchange balance_settlement)))
       = [''USDT'', ''BTC'', ''USDC'', ''USD'']
   \<and> map asset_total (assets (test_spot_balance no_strings (spot_exchange balance_settlement)))
       = [2, 1, 3, 4]
   \<and> usdt_equiv (test_spot_balance no_strings (spot_exchange balance_settlement)) = 9
   \<and> fetch_balance (spot_exchange balance_bad_free) ''spot'' = Inr balance_bad_free
   \<and> entry_raises no_strings (balance_bad_free ! 1)
   \<and> assets (test_spot_balance no_strings (spot_exchange balance_bad_free)) = []
   \<and> usdt_equiv (test_spot_balance no_strings (spot_exchange balance_bad_free)) = 0"
proof -
  note ev = entry_raises_def entry_total_def coerced_def get_float_def py_or_def dict_get_def
    reserved_keys_def no_strings_def to_asset_def
  have h1: "fetch_balance (spot_exchange balance_settlement) ''spot'' = Inr balance_settlement"
    by (simp add: spot_exchange_def only_spot_def)
  have ok: "\<forall>kv \<in> set balance_settlement. \<not> entry_raises no_strings kv"
    by (simp add: balance_settlement_def ev)
  have h2: "fetch_balance (spot_exchange balance_bad_free) ''spot'' = Inr balance_bad_free"
    by (simp add: spot_exchange_def only_spot_def)
  have bad: "\<exists>kv \<in> set balance_bad_free. entry_raises no_strings kv"
    by (simp add: balance_bad_free_def ev)
  from spot_included_unless_raised [OF h1, of no_strings] ok
  have a: "assets (test_spot_balance no_strings (spot_exchange balance_settlement))
      = map (to_asset no_strings)
          (filter (\<lambda>kv. fst kv \<notin> {''info'', ''free'', ''used'', ''total'', ''debt'',
                                     ''timestamp'', ''datetime''}
                        \<and> 0 < entry_total no_strings (snd kv)) balance_settlement)"
    and e: "usdt_equiv (test_spot_balance no_strings (spot_exchange balance_settlement))
      = sum_list (map asset_total
          (filter (\<lambda>a. currency a \<in> {''USDT'', ''USDC'', ''USD''})
             (assets (test_spot_balance no_strings (spot_exchange balance_settlement)))))"
    and n: "spot_error (test_spot_balance no_strings (spot_exchange balance_settlement)) = None"
    by blast+
  have a': "assets (test_spot_balance no_strings (spot_exchange balance_settlement))
      = [\<lparr>currency = ''USDT'', asset_total = 2, asset_free = 2, asset_used = 0\<rparr>,
         \<lparr>currency = ''BTC'', asset_total = 1, asset_free = 0, asset_used = 0\<rparr>,
         \<lparr>currency = ''USDC'', asset_total = 3, asset_free = 0, asset_used = 0\<rparr>,
         \<lparr>currency = ''USD'', asset_total = 4, asset_free = 0, asset_used = 4\<rparr>]"
    unfolding a by (simp add: balance_settlement_def ev)
  have e': "usdt_equiv (test_spot_balance no_strings (spot_exchange balance_settlement)) = 9"
    unfolding e a' by simp
  from spot_included_unless_raised [OF h2, of no_strings] bad
  have b: "assets (test_spot_balance no_strings (spot_exchange balance_bad_free)) = []"
    "usdt_equiv (test_spot_balance no_strings (spot_exchange balance_bad_free)) = 0"
    by blast+
  have bad1: "entry_raises no_strings (balance_bad_free ! 1)"
    by (simp add: balance_bad_free_def ev)
  from h1 n a' e' h2 bad1 b show ?thesis
    by simp
qed

text \<open>C5 as stated fails on \<open>balance_bad_free\<close>: the USDT entry has the total 5, strictly
  positive, and is not among the returned assets, because the \<^verbatim>\<open>free\<close> of the BTC entry
  does not coerce and the handler returns the empty result.\<close>

theorem spot_positive_total_dropped_counterexample:
  "(''USDT'', PDict [(''total'', PNum 5), (''free'', PNum 5)]) \<in> set balance_bad_free
   \<and> ''USDT'' \<notin> set reserved_keys
   \<and> get_float no_strings [(''total'', PNum 5), (''free'', PNum 5)] ''total'' = Inr 5
   \<and> test_spot_balance no_strings (spot_exchange balance_bad_free)
       = \<lparr>usdt_equiv = 0, assets = [], spot_error = Some ValueError\<rparr>"
  by (simp add: balance_bad_free_def reserved_keys_def get_float_def py_or_def dict_get_def
      spot_exchange_def only_spot_def no_strings_def test_spot_balance_def spot_body_def
      spot_item_def settlement_currencies_def)

text \<open>C3, as amended: when a raw entry under a non-reserved key has a \<^verbatim>\<open>total\<close>,
  \<^verbatim>\<open>free\<close> or \<^verbatim>\<open>used\<close> whose coercion raises (a present, truthy value \<^verbatim>\<open>float\<close>
  rejects), the exception is a ValueError or a TypeError and it is caught inside
  \<^verbatim>\<open>test_spot_balance\<close>, which returns the empty snapshot with the error recorded
  (\<^verbatim>\<open>usdt_equiv\<close> 0, no assets) for that snapshot; a field that is missing, null or
  otherwise falsy is coerced to 0 without error.\<close>

theorem spot_coercion_failure_caught:
  assumes "fetch_balance ex ''spot'' = Inr balance"
    and "(cur, PDict d) \<in> set balance" and "cur \<notin> set reserved_keys"
    and "k \<in> {''total'', ''free'', ''used''}" and "isl (get_float pf d k)"
  shows "(test_spot_balance pf ex = \<lparr>usdt_equiv = 0, assets = [], spot_error = Some ValueError\<rparr>
        \<or> test_spot_balance pf ex = \<lparr>usdt_equiv = 0, assets = [], spot_error = Some TypeError\<rparr>)
     \<and> (\<not> truthy (dict_get d' k' (PNum 0)) \<longrightarrow> get_float pf d' k' = Inr 0)"
proof -
  from spot_loop_raises [OF assms(2,3,4,5), of "(0, [])"] obtain e where
    e: "spot_loop pf balance (0, []) = Inl e"
    by (cases "spot_loop pf balance (0, [])") auto
  from spot_loop_error [OF e] e assms(1) show ?thesis
    by (auto simp: test_spot_balance_def spot_body_def get_float_falsy)
qed

theorem spot_coercion_failure_caught_witness:
  "fetch_balance (spot_exchange balance_bad_list) ''spot'' = Inr balance_bad_list
   \<and> (''BTC'', PDict [(''total'', PList [PNone])]) \<in> set balance_bad_list
   \<and> ''BTC'' \<notin> set reserved_keys
   \<and> isl (get_float no_strings [(''total'', PList [PNone])] ''total'')
   \<and> \<not> truthy (dict_get [(''total'', PNone)] ''total'' (PNum 0))
   \<and> test_spot_balance no_strings (spot_exchange balance_bad_list)
       = \<lparr>usdt_equiv = 0, assets = [], spot_error = Some TypeError\<rparr>
   \<and> get_float no_strings [(''total'', PNone)] ''total'' = Inr 0"
proof -
  have h1: "fetch_balance (spot_exchange balance_bad_list) ''spot'' = Inr balance_bad_list"
    by (simp add: spot_exchange_def only_spot_def)
  have h2: "(''BTC'', PDict [(''total'', PList [PNone])]) \<in> set balance_bad_list"
    by (simp add: balance_bad_list_def)
  have h3: "''BTC'' \<notin> set reserved_keys"
    by (simp add: reserved_keys_def)
  have h4: "''total'' \<in> {''total'', ''free'', ''used''}"
    by simp
  have h5: "isl (get_float no_strings [(''total'', PList [PNone])] ''total'')"
    by (simp add: get_float_def py_or_def dict_get_def)
  have h6: "\<not> truthy (dict_get [(''total'', PNone)] ''total'' (PNum 0))"
    by (simp add: dict_get_def)
  have run: "spot_error (test_spot_balance no_strings (spot_exchange balance_bad_list)) = Some TypeError"
    by (simp add: spot_exchange_def only_spot_def no_strings_def test_spot_balance_def
        spot_body_def spot_item_def get_float_def py_or_def dict_get_def reserved_keys_def
        settlement_currencies_def balance_bad_list_def)
  from spot_coercion_failure_caught [OF h1 h2 h3 h4 h5, of "[(''total'', PNone)]" "''total''"]
    h1 h2 h3 h5 h6 run show ?thesis
    by auto
qed

text \<open>C3 as stated fails: a \<^verbatim>\<open>total\<close> that is present and is the empty string (not a
  number) is coerced to 0 and the run records no error at all; and a \<^verbatim>\<open>total\<close> that is a
  list does not make the function raise: it returns the empty snapshot, discarding the
  USDT entry read before it.\<close>

theorem spot_empty_string_counterexample:
  "map_of [(''total'', PStr []), (''free'', PNum 5)] ''total'' = Some (PStr [])
   \<and> test_spot_balance no_strings (spot_exchange balance_empty_string)
       = \<lparr>usdt_equiv = 0, assets = [], spot_error = None\<rparr>
   \<and> test_spot_balance no_strings (spot_exchange balance_bad_list)
       = \<lparr>usdt_equiv = 0, assets = [], spot_error = Some TypeError\<rparr>"
  by (simp add: spot_exchange_def only_spot_def no_strings_def test_spot_balance_def
        spot_body_def spot_item_def get_float_def py_or_def dict_get_def reserved_keys_def
        settlement_currencies_def balance_empty_string_def balance_bad_list_def)

text \<open>C4, as amended: the rows printed by \<^verbatim>\<open>test_spot_balance\<close> (line 100) are the returned
  \<^verbatim>\<open>assets\<close> sorted descending by \<^verbatim>\<open>total\<close>, and the sort is stable: rows with equal
  totals keep the order of the returned list, which is the order of the raw mapping. The
  order is a function of the raw input.\<close>

theorem printed_rows_sorted_stable:
  "sorted_wrt by_total_desc (spot_printed pf ex)
   \<and> mset (spot_printed pf ex) = mset (assets (test_spot_balance pf ex))
   \<and> filter (\<lambda>a. asset_total a = t) (spot_printed pf ex)
       = filter (\<lambda>a. asset_total a = t) (assets (test_spot_balance pf ex))"
proof -
  have "sorted_wrt by_total_desc (sorted_assets xs)" for xs
    by (rule sorted_wrt_mono_rel [OF _ sorted_assets_desc]) (simp add: by_total_desc_def)
  then show ?thesis
    by (simp add: spot_printed_def sorted_assets_mset sorted_assets_stable)
qed

text \<open>C4 as stated fails on \<open>balance_mixed\<close>: the returned list is ETH (1), USDT (2),
  BTC (1), which is not descending by total; the printed rows are USDT, ETH, BTC, where
  the tie between ETH and BTC is not broken by currency ascending.\<close>

theorem balances_order_counterexample:
  "\<not> sorted_wrt spec_order (assets (test_spot_balance no_strings (spot_exchange balance_mixed)))
   \<and> \<not> sorted_wrt by_total_desc (assets (test_spot_balance no_strings (spot_exchange balance_mixed)))
   \<and> \<not> sorted_wrt spec_order (spot_printed no_strings (spot_exchange balance_mixed))"
  by (simp add: spot_printed_def sorted_assets_def spot_exchange_def only_spot_def
      no_strings_def test_spot_balance_def spot_body_def spot_item_def get_float_def py_or_def
      dict_get_def reserved_keys_def settlement_currencies_def balance_mixed_def
      spec_order_def by_total_desc_def)

subsection \<open>The position aggregator\<close>

lemma open_filter_shape:
  "open_filter pf ps = Inr kept \<Longrightarrow> kept = filter (\<lambda>p. 0 < coerced pf p ''contracts'') ps"
proof (induction ps arbitrary: kept)
  case Nil
  then show ?case by simp
next
  case (Cons p ps)
  show ?case
  proof (cases "truthy (dict_get p ''contracts'' (PNum 0))")
    case True
    with Cons.prems obtain c rest where
      c: "py_float pf (dict_get p ''contracts'' (PNum 0)) = Inr c"
      and rest: "open_filter pf ps = Inr rest"
      and kept: "kept = (if 0 < c then p # rest else rest)"
      by (auto split: sum.splits)
    from True c have "coerced pf p ''contracts'' = c"
      by (simp add: coerced_def get_float_def py_or_def)
    with Cons.IH [OF rest] kept show ?thesis by simp
  next
    case False
    then have "coerced pf p ''contracts'' = 0"
      by (simp add: coerced_def get_float_def py_or_def)
    with False Cons.prems Cons.IH show ?thesis by simp
  qed
qed

lemma position_row_shape:
  "position_row pf pos acc = Inr acc' \<Longrightarrow>
     fst acc' = fst acc + coerced pf pos ''unrealizedPnl''
     \<and> snd acc' = snd acc + \<bar>coerced pf pos ''notional''\<bar>"
  by (auto simp: position_row_def coerced_def Let_def split: sum.splits)

lemma positions_loop_shape:
  "positions_loop pf ps acc = Inr acc' \<Longrightarrow>
     fst acc' = fst acc + sum_list (map (\<lambda>p. coerced pf p ''unrealizedPnl'') ps)
     \<and> snd acc' = snd acc + sum_list (map (\<lambda>p. \<bar>coerced pf p ''notional''\<bar>) ps)"
proof (induction ps arbitrary: acc)
  case Nil
  then show ?case by simp
next
  case (Cons p ps)
  from Cons.prems obtain mid where
    row: "position_row pf p acc = Inr mid" and loop: "positions_loop pf ps mid = Inr acc'"
    by (auto split: sum.splits)
  from position_row_shape [OF row] Cons.IH [OF loop] show ?case
    by simp
qed

lemma open_filter_isl: "isl (open_filter pf ps) = (\<exists>p \<in> set ps. size_raises pf p)"
  by (induction ps) (auto simp: size_raises_def split: sum.splits)

lemma position_row_isl: "isl (position_row pf p acc) = row_raises pf p"
  by (simp add: row_raises_def position_row_def Let_def split: sum.splits)

lemma positions_loop_isl:
  "isl (positions_loop pf ps acc) = (\<exists>p \<in> set ps. row_raises pf p)"
proof (induction ps arbitrary: acc)
  case Nil
  then show ?case by simp
next
  case (Cons p ps)
  show ?case
  proof (cases "position_row pf p acc")
    case (Inl e)
    with position_row_isl [of pf p acc] show ?thesis by simp
  next
    case (Inr mid)
    with position_row_isl [of pf p acc] Cons.IH [of mid] show ?thesis by simp
  qed
qed

text \<open>C6, as amended: when no position makes the comprehension of line 171 or the loop of
  lines 182--196 raise, the retained positions are exactly the raw positions whose coerced
  size (\<^verbatim>\<open>contracts\<close>) is strictly positive, in raw order, so a position of size 0 or
  without size is left out; \<^verbatim>\<open>unrealized_pnl\<close> is the signed sum of \<^verbatim>\<open>unrealizedPnl\<close> over
  the retained positions (a missing value counted as 0, a negative one as it is) and
  \<^verbatim>\<open>notional\<close> is the sum of the absolute values of \<^verbatim>\<open>notional\<close> over them. When some
  position makes one of them raise, the exception is caught and the result has no position
  and \<^verbatim>\<open>unrealized_pnl\<close> 0.\<close>

theorem positions_retained_unless_raised:
  assumes "fetch_positions ex = Inr ps"
  shows "((\<forall>p \<in> set ps. \<not> size_raises pf p
             \<and> \<not> (0 < coerced pf p ''contracts'' \<and> row_raises pf p)) \<longrightarrow>
            positions_error (test_positions pf ex) = None
          \<and> positions (test_positions pf ex)
              = filter (\<lambda>p. 0 < coerced pf p ''contracts'') ps
          \<and> unrealized_pnl (test_positions pf ex)
              = sum_list (map (\<lambda>p. coerced pf p ''unrealizedPnl'')
                  (positions (test_positions pf ex)))
          \<and> notional (test_positions pf ex)
              = Some (sum_list (map (\<lambda>p. \<bar>coerced pf p ''notional''\<bar>)
                  (positions (test_positions pf ex)))))
     \<and> ((\<exists>p \<in> set ps. size_raises pf p
             \<or> (0 < coerced pf p ''contracts'' \<and> row_raises pf p)) \<longrightarrow>
            positions_error (test_positions pf ex) \<noteq> None
          \<and> positions (test_positions pf ex) = []
          \<and> unrealized_pnl (test_positions pf ex) = 0
          \<and> notional (test_positions pf ex) = None)"
proof (cases "open_filter pf ps")
  case (Inl e)
  with open_filter_isl [of pf ps] have "\<exists>p \<in> set ps. size_raises pf p" by simp
  with Inl assms show ?thesis
    by (auto simp: test_positions_def positions_body_def)
next
  case kept: (Inr kept)
  with open_filter_isl [of pf ps] have nosize: "\<forall>p \<in> set ps. \<not> size_raises pf p" by simp
  from open_filter_shape [OF kept]
  have k: "kept = filter (\<lambda>p. 0 < coerced pf p ''contracts'') ps" .
  show ?thesis
  proof (cases "positions_loop pf kept (0, 0)")
    case (Inl e)
    with positions_loop_isl [of pf kept "(0, 0)"] k
    have "\<exists>p \<in> set ps. 0 < coerced pf p ''contracts'' \<and> row_raises pf p" by auto
    with Inl kept assms show ?thesis
      by (auto simp: test_positions_def positions_body_def)
  next
    case (Inr acc)
    with positions_loop_isl [of pf kept "(0, 0)"] k
    have norow: "\<forall>p \<in> set ps. \<not> (0 < coerced pf p ''contracts'' \<and> row_raises pf p)" by auto
    from positions_loop_shape [OF Inr] k assms kept Inr nosize norow show ?thesis
      by (cases acc) (simp add: test_positions_def positions_body_def)
  qed
qed

theorem positions_retained_unless_raised_witness:
  "fetch_positions (positions_exchange positions_mixed) = Inr positions_mixed
   \<and> positions (test_positions no_strings (positions_exchange positions_mixed))
       = [positions_mixed ! 0, positions_mixed ! 3]
   \<and> unrealized_pnl (test_positions no_strings (positions_exchange positions_mixed)) = - 30
   \<and> notional (test_positions no_strings (positions_exchange positions_mixed)) = Some 620
   \<and> fetch_positions (positions_exchange positions_no_symbol) = Inr positions_no_symbol
   \<and> 0 < coerced no_strings (positions_no_symbol ! 0) ''contracts''
   \<and> row_raises no_strings (positions_no_symbol ! 0)
   \<and> positions (test_positions no_strings (positions_exchange positions_no_symbol)) = []
   \<and> unrealized_pnl (test_positions no_strings (positions_exchange positions_no_symbol)) = 0"
proof -
  note ev = size_raises_def row_raises_def position_row_def coerced_def get_float_def
    py_or_def dict_get_def no_strings_def
  have h1: "fetch_positions (positions_exchange positions_mixed) = Inr positions_mixed"
    by (simp add: positions_exchange_def)
  have ok: "\<forall>p \<in> set positions_mixed. \<not> size_raises no_strings p
      \<and> \<not> (0 < coerced no_strings p ''contracts'' \<and> row_raises no_strings p)"
    by (simp add: positions_mixed_def ev)
  have h2: "fetch_positions (positions_exchange positions_no_symbol) = Inr positions_no_symbol"
    by (simp add: positions_exchange_def)
  have bad: "\<exists>p \<in> set positions_no_symbol. size_raises no_strings p
      \<or> (0 < coerced no_strings p ''contracts'' \<and> row_raises no_strings p)"
    by (simp add: positions_no_symbol_def ev)
  have flt: "filter (\<lambda>p. 0 < coerced no_strings p ''contracts'') positions_mixed
      = [positions_mixed ! 0, positions_mixed ! 3]"
    by (simp add: positions_mixed_def ev)
  from positions_retained_unless_raised [OF h1, of no_strings] ok
  have p: "positions (test_positions no_strings (positions_exchange positions_mixed))
      = filter (\<lambda>p. 0 < coerced no_strings p ''contracts'') positions_mixed"
    and u: "unrealized_pnl (test_positions no_strings (positions_exchange positions_mixed))
      = sum_list (map (\<lambda>p. coerced no_strings p ''unrealizedPnl'')
          (positions (test_positions no_strings (positions_exchange positions_mixed))))"
    and t: "notional (test_positions no_strings (positions_exchange positions_mixed))
      = Some (sum_list (map (\<lambda>p. \<bar>coerced no_strings p ''notional''\<bar>)
          (positions (test_positions no_strings (positions_exchange positions_mixed)))))"
    by blast+
  have p': "positions (test_positions no_strings (positions_exchange positions_mixed))
      = [positions_mixed ! 0, positions_mixed ! 3]"
    unfolding p flt ..
  have u': "unrealized_pnl (test_positions no_strings (positions_exchange positions_mixed)) = - 30"
    unfolding u p' by (simp add: positions_mixed_def ev)
  have t': "notional (test_positions no_strings (positions_exchange positions_mixed)) = Some 620"
    unfolding t p' by (simp add: positions_mixed_def ev)
  from positions_retained_unless_raised [OF h2, of no_strings] bad
  have b: "positions (test_positions no_strings (positions_exchange positions_no_symbol)) = []"
    "unrealized_pnl (test_positions no_strings (positions_exchange positions_no_symbol)) = 0"
    by blast+
  have bad1: "0 < coerced no_strings (positions_no_symbol ! 0) ''contracts''"
    "row_raises no_strings (positions_no_symbol ! 0)"
    by (simp_all add: positions_no_symbol_def ev)
  from h1 p' u' t' h2 bad1 b show ?thesis
    by simp
qed

text \<open>C6 as stated fails on \<open>positions_no_symbol\<close>: the position has size 1 and is not
  retained, because its \<^verbatim>\<open>symbol\<close> is \<^verbatim>\<open>None\<close>, the row of line 195 raises TypeError on
  it, and the handler returns the empty result; its PnL of 5 is not summed.\<close>

theorem position_without_symbol_counterexample:
  "get_float no_strings (positions_no_symbol ! 0) ''contracts'' = Inr 1
   \<and> test_positions no_strings (positions_exchange positions_no_symbol)
       = \<lparr>positions = [], unrealized_pnl = 0, notional = None,
          positions_error = Some TypeError\<rparr>"
  by (simp add: positions_no_symbol_def positions_exchange_def test_positions_def
      positions_body_def position_row_def get_float_def py_or_def dict_get_def)

subsection \<open>The trade aggregator\<close>










subsection \<open>The funding probe\<close>






subsection \<open>The detector and the total\<close>

text \<open>C8: with the epsilon 1.0 of line 342 the detector answers true on the subtotals
  (1000.00, 1000.50), false on (1000.00, 5000.00) and false on (0, 500).\<close>

theorem detector_examples:
  "pools_are_shared 1000.00 1000.50 \<and> \<not> pools_are_shared 1000.00 5000.00
     \<and> \<not> pools_are_shared 0 500"
  by (simp add: pools_are_shared_def)

text \<open>C2, as amended: the detector answers true when both subtotals are strictly positive
  and their absolute difference is below 1.0; it answers false whenever the spot subtotal
  is zero and whenever the absolute difference is at least 1.0. A zero swap subtotal does
  not make it answer false: then it answers true exactly when the spot subtotal lies
  strictly between 0 and 1.\<close>

theorem detector_rule:
  "(0 < spot \<and> 0 < swap \<and> \<bar>spot - swap\<bar> < 1 \<longrightarrow> pools_are_shared spot swap)
   \<and> (spot = 0 \<longrightarrow> \<not> pools_are_shared spot swap)
   \<and> (1 \<le> \<bar>spot - swap\<bar> \<longrightarrow> \<not> pools_are_shared spot swap)
   \<and> (swap = 0 \<longrightarrow> pools_are_shared spot swap = (0 < spot \<and> spot < 1))"
  by (auto simp: pools_are_shared_def)

theorem detector_rule_witness:
  "(0::real) < 2 \<and> (0::real) < 2.25 \<and> \<bar>2 - 2.25 :: real\<bar> < 1 \<and> pools_are_shared 2 2.25
   \<and> \<not> pools_are_shared 0 3
   \<and> (1::real) \<le> \<bar>10 - 20\<bar> \<and> \<not> pools_are_shared 10 20
   \<and> pools_are_shared 0.25 0 \<and> \<not> pools_are_shared 4 0"
  using detector_rule [of 2 "2.25"] detector_rule [of 0 3] detector_rule [of 10 20]
    detector_rule [of "0.25" 0] detector_rule [of 4 0]
  by simp

text \<open>C2 as stated fails: with the spot subtotal 0.5 and the swap subtotal 0, one subtotal
  is zero and the detector answers true.\<close>

theorem detector_zero_swap_counterexample:
  "pools_are_shared 0.5 0"
  by (simp add: pools_are_shared_def)

lemma total_not_shared:
  "\<not> pools_are_shared spot swap \<Longrightarrow> reported_total spot swap funding = spot + swap + funding"
  by (simp add: reported_total_def)

lemma total_shared:
  "pools_are_shared spot swap \<Longrightarrow> reported_total spot swap funding = swap"
  by (simp add: reported_total_def)

text \<open>C1 against lines 342--350: on the subtotals spot 1000, swap 1000.5, funding 50 the
  pools count as shared and the total printed is 1000.5, the swap subtotal alone: the
  funding subtotal, which the other branch adds, is left out, where the claim has
  1000.5 + 50.\<close>

theorem shared_total_drops_funding:
  "pools_are_shared 1000 1000.5
   \<and> reported_total 1000 1000.5 50 = 1000.5
   \<and> reported_total 1000 1000.5 50 \<noteq> 1000.5 + 50"
  by (simp add: reported_total_def pools_are_shared_def)

subsection \<open>The run\<close>

lemma spot_exception_caught:
  "spot_body pf ex = Inl e \<Longrightarrow>
     test_spot_balance pf ex = \<lparr>usdt_equiv = 0, assets = [], spot_error = Some e\<rparr>"
  by (simp add: test_spot_balance_def)

lemma swap_exception_caught:
  "swap_body pf ex = Inl e \<Longrightarrow> swap_total (test_swap_balance pf ex) = 0"
  by (simp add: test_swap_balance_def)

lemma positions_exception_caught:
  "positions_body pf ex = Inl e \<Longrightarrow>
     test_positions pf ex =
       \<lparr>positions = [], unrealized_pnl = 0, notional = None, positions_error = Some e\<rparr>"
  by (simp add: test_positions_def)

lemma main_never_reports:
  "main pf fc ex = (case test_recent_trades pf ex of Inl e \<Rightarrow> Inl e | Inr t \<Rightarrow> Inl ValueError)"
  by (simp add: main_def Let_def split: sum.splits)

text \<open>C10 against \<^verbatim>\<open>main\<close>: the three components catch their exceptions (lemmas above),
  but the run does not reach the total. On the healthy account every component succeeds
  (spot 1000, swap 1000.5, funding 50, no PnL, no trade) and the summary still raises
  ValueError at line 338, where the string \<^verbatim>\<open>format_currency\<close> returns is formatted with
  the sign specification \<^verbatim>\<open>>+15\<close>.\<close>

theorem main_raises_before_total:
  "test_spot_balance no_strings (balance_exchange healthy_balances)
     = \<lparr>usdt_equiv = 1000,
        assets = [\<lparr>currency = ''USDT'', asset_total = 1000, asset_free = 1000, asset_used = 0\<rparr>],
        spot_error = None\<rparr>
   \<and> swap_total (test_swap_balance no_strings (balance_exchange healthy_balances)) = 1000.5
   \<and> swap_error (test_swap_balance no_strings (balance_exchange healthy_balances)) = None
   \<and> positions_error (test_positions no_strings (balance_exchange healthy_balances)) = None
   \<and> funding_total (test_funding_balance no_strings (balance_exchange healthy_balances)) = 50
   \<and> test_recent_trades no_strings (balance_exchange healthy_balances)
       = Inr \<lparr>trades = 0, volume = 0, fees = 0\<rparr>
   \<and> main no_strings some_text (balance_exchange healthy_balances) = Inl ValueError"
proof -
  have trades: "test_recent_trades no_strings (balance_exchange healthy_balances)
      = Inr \<lparr>trades = 0, volume = 0, fees = 0\<rparr>"
    by (simp add: balance_exchange_def no_trades_def test_recent_trades_def
        symbols_to_check_def summarize_trades_def)
  have spot: "test_spot_balance no_strings (balance_exchange healthy_balances)
      = \<lparr>usdt_equiv = 1000,
         assets = [\<lparr>currency = ''USDT'', asset_total = 1000, asset_free = 1000, asset_used = 0\<rparr>],
         spot_error = None\<rparr>"
    by (simp add: balance_exchange_def healthy_balances_def test_spot_balance_def spot_body_def
        spot_item_def get_float_def py_or_def dict_get_def reserved_keys_def
        settlement_currencies_def)
  have swap: "test_swap_balance no_strings (balance_exchange healthy_balances)
      = \<lparr>usdt_total = Some 1000.5, usdt_free = Some 1000.5, usdc_total = Some 0,
         swap_total = 1000.5, swap_error = None\<rparr>"
    by (simp add: balance_exchange_def healthy_balances_def test_swap_balance_def swap_body_def
        val_float_def py_or_def dict_get_def)
  have pos: "positions_error (test_positions no_strings (balance_exchange healthy_balances)) = None"
    by (simp add: balance_exchange_def test_positions_def positions_body_def)
  have fund: "funding_total (test_funding_balance no_strings (balance_exchange healthy_balances)) = 50"
    by (simp add: balance_exchange_def healthy_balances_def usdt_only_def
        test_funding_balance_def funding_probe_def val_float_def py_or_def dict_get_def)
  have run: "main no_strings some_text (balance_exchange healthy_balances) = Inl ValueError"
    by (simp add: main_def Let_def trades)
  from spot swap pos fund trades run show ?thesis
    by simp
qed

end
